theory Spec2Isabelle
  imports Complex_Main "HOL-Library.Monad_Syntax"
begin

section \<open>Expression trees of the lesson on class hierarchies and smart pointers\<close>

text \<open>
  The two programs \<^verbatim>\<open>asset/2b-expr-unique.cpp\<close> and \<^verbatim>\<open>asset/2b-expr-shared.cpp\<close>
  are embedded side by side, and with them the listing of \<^verbatim>\<open>block-2b.md\<close> that owns its
  children through raw pointers.

  \<^item> A \<^verbatim>\<open>double\<close> is modelled as a \<open>real\<close>: rounding, infinities and NaN are left out.
  \<^item> A pointer, smart or raw, is an \<open>option\<close>: \<open>None\<close> is the null pointer.
  \<^item> A tree of \<^verbatim>\<open>std::unique_ptr\<close> is a value (every object has one owner), so the
    exclusive-ownership variant is a datatype whose children are optional subtrees. So is
    the raw-pointer listing, where \<^verbatim>\<open>~TwoOp\<close> deletes the two children.
  \<^item> A \<^verbatim>\<open>std::shared_ptr\<close> is an address into an explicit store of objects, so that two
    parents may hold the same child. \<^verbatim>\<open>std::make_shared\<close> appends an object to the store.
    Reference counts and destruction are not modelled: the store keeps every object.
  \<^item> Dereferencing a null pointer is undefined behaviour in C++; the model returns the
    error value \<open>NullDereference\<close> at that point and says nothing about what follows.
  \<^item> A \<^verbatim>\<open>std::ostream &\<close> is passed as state: the characters written so far go in, the
    characters written afterwards come out. The stream's rendering of a \<^verbatim>\<open>double\<close>
    (\<^verbatim>\<open>os << c\<close>) belongs to the standard library and is the parameter \<open>put\<close>.
  \<^item> Recursion through the store need not end on a cyclic store, so the operations of
    the shared variant return an \<open>option\<close>: \<open>None\<close> means that the call does not return.
\<close>

datatype error = NullDereference | InvalidPointer

type_synonym ostream = string

subsection \<open>What both files share: the virtual functions of \<^verbatim>\<open>Sum\<close> and \<^verbatim>\<open>Product\<close>\<close>

definition Sum_calc :: "real \<Rightarrow> real \<Rightarrow> real" where
  "Sum_calc a b = a + b"

definition Sum_op :: char where
  "Sum_op = CHR ''+''"

definition Product_calc :: "real \<Rightarrow> real \<Rightarrow> real" where
  "Product_calc a b = a + b"

definition Product_op :: char where
  "Product_op = CHR ''*''"

text \<open>The virtual member functions that \<^verbatim>\<open>class Expression\<close> declares in each file.\<close>

datatype member_function = Evaluate | Print | Derivative

definition Expression_u_methods :: "member_function list" where
  "Expression_u_methods = [Evaluate, Print]"

definition Expression_s_methods :: "member_function list" where
  "Expression_s_methods = [Evaluate, Print, Derivative]"

subsection \<open>The exclusive-ownership variant (\<^verbatim>\<open>2b-expr-unique.cpp\<close>)\<close>

datatype Expression_u =
    Constant_u real
  | Variable_u
  | Sum_u "Expression_u option" "Expression_u option"
  | Product_u "Expression_u option" "Expression_u option"

type_synonym unique_ptr = "Expression_u option"

definition make_unique :: "Expression_u \<Rightarrow> unique_ptr" where
  "make_unique obj = Some obj"

text \<open>\<open>ptr_evaluate_u p x\<close> is the call \<^verbatim>\<open>p->evaluate(x)\<close> through a pointer.\<close>

fun evaluate_u :: "Expression_u \<Rightarrow> real \<Rightarrow> error + real"
  and ptr_evaluate_u :: "unique_ptr \<Rightarrow> real \<Rightarrow> error + real" where
  "evaluate_u (Constant_u c) x = Inr c"
| "evaluate_u Variable_u x = Inr x"
| "evaluate_u (Sum_u left right) x =
     (case ptr_evaluate_u left x of Inl e \<Rightarrow> Inl e | Inr a \<Rightarrow>
        (case ptr_evaluate_u right x of Inl e \<Rightarrow> Inl e | Inr b \<Rightarrow> Inr (Sum_calc a b)))"
| "evaluate_u (Product_u left right) x =
     (case ptr_evaluate_u left x of Inl e \<Rightarrow> Inl e | Inr a \<Rightarrow>
        (case ptr_evaluate_u right x of Inl e \<Rightarrow> Inl e | Inr b \<Rightarrow> Inr (Product_calc a b)))"
| "ptr_evaluate_u None x = Inl NullDereference"
| "ptr_evaluate_u (Some e) x = evaluate_u e x"

text \<open>\<open>ptr_print_u put p os\<close> is the call \<^verbatim>\<open>p->print(os)\<close> through a pointer.\<close>

fun print_u :: "(real \<Rightarrow> string) \<Rightarrow> Expression_u \<Rightarrow> ostream \<Rightarrow> error + ostream"
  and ptr_print_u :: "(real \<Rightarrow> string) \<Rightarrow> unique_ptr \<Rightarrow> ostream \<Rightarrow> error + ostream" where
  "print_u put (Constant_u c) os = Inr (os @ put c)"
| "print_u put Variable_u os = Inr (os @ [CHR ''x''])"
| "print_u put (Sum_u left right) os =
     (case ptr_print_u put left (os @ [CHR ''('']) of Inl e \<Rightarrow> Inl e | Inr os1 \<Rightarrow>
        (case ptr_print_u put right (os1 @ [Sum_op]) of Inl e \<Rightarrow> Inl e | Inr os2 \<Rightarrow>
           Inr (os2 @ [CHR '')''])))"
| "print_u put (Product_u left right) os =
     (case ptr_print_u put left (os @ [CHR ''('']) of Inl e \<Rightarrow> Inl e | Inr os1 \<Rightarrow>
        (case ptr_print_u put right (os1 @ [Product_op]) of Inl e \<Rightarrow> Inl e | Inr os2 \<Rightarrow>
           Inr (os2 @ [CHR '')''])))"
| "ptr_print_u put None os = Inl NullDereference"
| "ptr_print_u put (Some e) os = print_u put e os"

text \<open>
  \<^verbatim>\<open>std::ostream & operator<< (std::ostream & os, Expression const & e)\<close>: it calls
  \<^verbatim>\<open>e.print(os)\<close> and returns \<^verbatim>\<open>os\<close>, the stream it was given, in the state the call
  left it in.
\<close>

definition operator_shl :: "(real \<Rightarrow> string) \<Rightarrow> ostream \<Rightarrow> Expression_u \<Rightarrow> error + ostream" where
  "operator_shl put os e =
     (case print_u put e os of Inl err \<Rightarrow> Inl err | Inr os' \<Rightarrow> Inr os')"

text \<open>The tree that \<^verbatim>\<open>main\<close> builds, \<^verbatim>\<open>4 * (5+x)\<close>.\<close>

definition main_u :: unique_ptr where
  "main_u =
     make_unique (Product_u
       (make_unique (Constant_u 4))
       (make_unique (Sum_u
         (make_unique (Constant_u 5))
         (make_unique Variable_u))))"

subsection \<open>The shared-ownership variant (\<^verbatim>\<open>2b-expr-shared.cpp\<close>)\<close>

type_synonym addr = nat

type_synonym shared_ptr = "addr option"

datatype Expression_s =
    Constant_s real
  | Variable_s
  | Sum_s shared_ptr shared_ptr
  | Product_s shared_ptr shared_ptr

type_synonym heap = "Expression_s list"

definition make_shared :: "Expression_s \<Rightarrow> heap \<Rightarrow> heap \<times> shared_ptr" where
  "make_shared obj h = (h @ [obj], Some (length h))"

text \<open>
  Reading the object behind a pointer. An address outside the store is no pointer that
  the program can hold; the model answers it with \<open>InvalidPointer\<close>.
\<close>

definition deref :: "heap \<Rightarrow> shared_ptr \<Rightarrow> error + Expression_s" where
  "deref h p =
     (case p of
        None \<Rightarrow> Inl NullDereference
      | Some a \<Rightarrow> if a < length h then Inr (h ! a) else Inl InvalidPointer)"

partial_function (option) evaluate_s ::
  "heap \<Rightarrow> shared_ptr \<Rightarrow> real \<Rightarrow> (error + real) option" where
  "evaluate_s h p x =
     (case deref h p of
        Inl e \<Rightarrow> Some (Inl e)
      | Inr (Constant_s c) \<Rightarrow> Some (Inr c)
      | Inr Variable_s \<Rightarrow> Some (Inr x)
      | Inr (Sum_s left right) \<Rightarrow> do {
          ra \<leftarrow> evaluate_s h left x;
          case ra of Inl e \<Rightarrow> Some (Inl e) | Inr a \<Rightarrow> do {
            rb \<leftarrow> evaluate_s h right x;
            case rb of Inl e \<Rightarrow> Some (Inl e) | Inr b \<Rightarrow> Some (Inr (Sum_calc a b)) } }
      | Inr (Product_s left right) \<Rightarrow> do {
          ra \<leftarrow> evaluate_s h left x;
          case ra of Inl e \<Rightarrow> Some (Inl e) | Inr a \<Rightarrow> do {
            rb \<leftarrow> evaluate_s h right x;
            case rb of Inl e \<Rightarrow> Some (Inl e) | Inr b \<Rightarrow> Some (Inr (Product_calc a b)) } })"

declare evaluate_s.simps [code]

partial_function (option) print_s ::
  "(real \<Rightarrow> string) \<Rightarrow> heap \<Rightarrow> shared_ptr \<Rightarrow> ostream \<Rightarrow> (error + ostream) option" where
  "print_s put h p os =
     (case deref h p of
        Inl e \<Rightarrow> Some (Inl e)
      | Inr (Constant_s c) \<Rightarrow> Some (Inr (os @ put c))
      | Inr Variable_s \<Rightarrow> Some (Inr (os @ [CHR ''x'']))
      | Inr (Sum_s left right) \<Rightarrow> do {
          r1 \<leftarrow> print_s put h left (os @ [CHR ''('']);
          case r1 of Inl e \<Rightarrow> Some (Inl e) | Inr os1 \<Rightarrow> do {
            r2 \<leftarrow> print_s put h right (os1 @ [Sum_op]);
            case r2 of Inl e \<Rightarrow> Some (Inl e) | Inr os2 \<Rightarrow> Some (Inr (os2 @ [CHR '')''])) } }
      | Inr (Product_s left right) \<Rightarrow> do {
          r1 \<leftarrow> print_s put h left (os @ [CHR ''('']);
          case r1 of Inl e \<Rightarrow> Some (Inl e) | Inr os1 \<Rightarrow> do {
            r2 \<leftarrow> print_s put h right (os1 @ [Product_op]);
            case r2 of Inl e \<Rightarrow> Some (Inl e) | Inr os2 \<Rightarrow> Some (Inr (os2 @ [CHR '')''])) } })"

declare print_s.simps [code]

text \<open>
  \<^verbatim>\<open>derivative\<close> allocates, so it takes the store and returns the store it leaves and the
  new pointer. C++ does not fix the order in which the arguments of a call are evaluated;
  the model evaluates them from left to right, which decides only the addresses of the new
  objects.
\<close>

partial_function (option) derivative_s ::
  "heap \<Rightarrow> shared_ptr \<Rightarrow> (error + heap \<times> shared_ptr) option" where
  "derivative_s h p =
     (case deref h p of
        Inl e \<Rightarrow> Some (Inl e)
      | Inr (Constant_s c) \<Rightarrow> Some (Inr (make_shared (Constant_s 0) h))
      | Inr Variable_s \<Rightarrow> Some (Inr (make_shared (Constant_s 1) h))
      | Inr (Sum_s left right) \<Rightarrow> do {
          r1 \<leftarrow> derivative_s h left;
          case r1 of Inl e \<Rightarrow> Some (Inl e) | Inr (h1, dl) \<Rightarrow> do {
            r2 \<leftarrow> derivative_s h1 right;
            case r2 of Inl e \<Rightarrow> Some (Inl e) | Inr (h2, dr) \<Rightarrow>
              Some (Inr (make_shared (Sum_s dl dr) h2)) } }
      | Inr (Product_s left right) \<Rightarrow> do {
          r1 \<leftarrow> derivative_s h right;
          case r1 of Inl e \<Rightarrow> Some (Inl e) | Inr (h1, dr) \<Rightarrow>
            let (h2, p1) = make_shared (Product_s left dr) h1 in do {
              r2 \<leftarrow> derivative_s h2 left;
              case r2 of Inl e \<Rightarrow> Some (Inl e) | Inr (h3, dl) \<Rightarrow>
                let (h4, p2) = make_shared (Product_s dl right) h3 in
                Some (Inr (make_shared (Sum_s p1 p2) h4)) } })"

declare derivative_s.simps [code]

text \<open>
  The tree that \<^verbatim>\<open>main\<close> builds, \<^verbatim>\<open>4 * (5+x)\<close>: the store after the five calls of
  \<^verbatim>\<open>std::make_shared\<close>, and the pointer \<^verbatim>\<open>e\<close>.
\<close>

definition main_s :: "heap \<times> shared_ptr" where
  "main_s =
     (let (h1, c4) = make_shared (Constant_s 4) [];
          (h2, c5) = make_shared (Constant_s 5) h1;
          (h3, v) = make_shared Variable_s h2;
          (h4, s) = make_shared (Sum_s c5 v) h3
      in make_shared (Product_s c4 s) h4)"

subsection \<open>The raw-pointer listing of the lesson (\<^verbatim>\<open>block-2b.md\<close>)\<close>

text \<open>
  The lesson first writes the classes with \<^verbatim>\<open>Expression *left, *right\<close>: \<^verbatim>\<open>Constant\<close>
  (lines 37 to 48), \<^verbatim>\<open>Variable\<close> (lines 70 to 78), and \<^verbatim>\<open>TwoOp\<close>, \<^verbatim>\<open>Sum\<close> and \<^verbatim>\<open>Product\<close>
  (lines 130 to 171). In this listing \<^verbatim>\<open>Sum\<close> and \<^verbatim>\<open>Product\<close> each have their own
  \<^verbatim>\<open>evaluate\<close> and \<^verbatim>\<open>print\<close>. \<open>new_r\<close> is a \<^verbatim>\<open>new\<close> expression.
\<close>

datatype Expression_r =
    Constant_r real
  | Variable_r
  | Sum_r "Expression_r option" "Expression_r option"
  | Product_r "Expression_r option" "Expression_r option"

type_synonym raw_ptr = "Expression_r option"

definition new_r :: "Expression_r \<Rightarrow> raw_ptr" where
  "new_r obj = Some obj"

fun evaluate_r :: "Expression_r \<Rightarrow> real \<Rightarrow> error + real"
  and ptr_evaluate_r :: "raw_ptr \<Rightarrow> real \<Rightarrow> error + real" where
  "evaluate_r (Constant_r c) x = Inr c"
| "evaluate_r Variable_r x = Inr x"
| "evaluate_r (Sum_r left right) x =
     (case ptr_evaluate_r left x of Inl e \<Rightarrow> Inl e | Inr a \<Rightarrow>
        (case ptr_evaluate_r right x of Inl e \<Rightarrow> Inl e | Inr b \<Rightarrow> Inr (a + b)))"
| "evaluate_r (Product_r left right) x =
     (case ptr_evaluate_r left x of Inl e \<Rightarrow> Inl e | Inr a \<Rightarrow>
        (case ptr_evaluate_r right x of Inl e \<Rightarrow> Inl e | Inr b \<Rightarrow> Inr (a * b)))"
| "ptr_evaluate_r None x = Inl NullDereference"
| "ptr_evaluate_r (Some e) x = evaluate_r e x"

fun print_r :: "(real \<Rightarrow> string) \<Rightarrow> Expression_r \<Rightarrow> ostream \<Rightarrow> error + ostream"
  and ptr_print_r :: "(real \<Rightarrow> string) \<Rightarrow> raw_ptr \<Rightarrow> ostream \<Rightarrow> error + ostream" where
  "print_r put (Constant_r c) os = Inr (os @ put c)"
| "print_r put Variable_r os = Inr (os @ [CHR ''x''])"
| "print_r put (Sum_r left right) os =
     (case ptr_print_r put left (os @ [CHR ''('']) of Inl e \<Rightarrow> Inl e | Inr os1 \<Rightarrow>
        (case ptr_print_r put right (os1 @ [CHR ''+'']) of Inl e \<Rightarrow> Inl e | Inr os2 \<Rightarrow>
           Inr (os2 @ [CHR '')''])))"
| "print_r put (Product_r left right) os =
     (case ptr_print_r put left os of Inl e \<Rightarrow> Inl e | Inr os1 \<Rightarrow>
        ptr_print_r put right (os1 @ [CHR ''*'']))"
| "ptr_print_r put None os = Inl NullDereference"
| "ptr_print_r put (Some e) os = print_r put e os"

text \<open>The tree \<^verbatim>\<open>4 * (5+x)\<close> of the two \<^verbatim>\<open>main\<close> functions, built with \<^verbatim>\<open>new\<close>.\<close>

definition main_r :: raw_ptr where
  "main_r =
     new_r (Product_r
       (new_r (Constant_r 4))
       (new_r (Sum_r
         (new_r (Constant_r 5))
         (new_r Variable_r))))"

subsection \<open>Well-formed trees and what the store holds\<close>

text \<open>
  The data model of the specification: a finite tree of the four kinds of node in which
  every binary node has two children. \<open>tree_u t\<close> is that tree in the exclusive-ownership
  variant, every child wrapped by \<^verbatim>\<open>std::make_unique\<close>; \<open>build_s t h\<close> builds it in the
  shared-ownership variant, bottom-up and with one \<^verbatim>\<open>std::make_shared\<close> per node, as
  \<^verbatim>\<open>main\<close> does.
\<close>

datatype tree = TConstant real | TVariable | TSum tree tree | TProduct tree tree

fun tree_u :: "tree \<Rightarrow> Expression_u" where
  "tree_u (TConstant c) = Constant_u c"
| "tree_u TVariable = Variable_u"
| "tree_u (TSum l r) = Sum_u (make_unique (tree_u l)) (make_unique (tree_u r))"
| "tree_u (TProduct l r) = Product_u (make_unique (tree_u l)) (make_unique (tree_u r))"

fun build_s :: "tree \<Rightarrow> heap \<Rightarrow> heap \<times> shared_ptr" where
  "build_s (TConstant c) h = make_shared (Constant_s c) h"
| "build_s TVariable h = make_shared Variable_s h"
| "build_s (TSum l r) h =
     (let (h1, left) = build_s l h; (h2, right) = build_s r h1
      in make_shared (Sum_s left right) h2)"
| "build_s (TProduct l r) h =
     (let (h1, left) = build_s l h; (h2, right) = build_s r h1
      in make_shared (Product_s left right) h2)"

text \<open>
  \<open>repr h p t\<close>: in the store \<open>h\<close> the pointer \<open>p\<close> leads to a well-formed expression
  of the shape \<open>t\<close>. No pointer on the way is null, and the derivation is finite, so the
  part of the store that \<open>p\<close> reaches is finite and acyclic. Two parents may hold the
  same child.
\<close>

inductive repr :: "heap \<Rightarrow> shared_ptr \<Rightarrow> tree \<Rightarrow> bool" where
  repr_Constant: "deref h p = Inr (Constant_s c) \<Longrightarrow> repr h p (TConstant c)"
| repr_Variable: "deref h p = Inr Variable_s \<Longrightarrow> repr h p TVariable"
| repr_Sum: "deref h p = Inr (Sum_s left right) \<Longrightarrow> repr h left l \<Longrightarrow> repr h right r
     \<Longrightarrow> repr h p (TSum l r)"
| repr_Product: "deref h p = Inr (Product_s left right) \<Longrightarrow> repr h left l \<Longrightarrow> repr h right r
     \<Longrightarrow> repr h p (TProduct l r)"

code_pred repr .

inductive_cases repr_TConstantE: "repr h p (TConstant c)"
inductive_cases repr_TVariableE: "repr h p TVariable"
inductive_cases repr_TSumE: "repr h p (TSum l r)"
inductive_cases repr_TProductE: "repr h p (TProduct l r)"

text \<open>The number that the code computes for a well-formed tree, with the code's \<open>calc\<close>.\<close>

fun tree_value :: "tree \<Rightarrow> real \<Rightarrow> real" where
  "tree_value (TConstant c) x = c"
| "tree_value TVariable x = x"
| "tree_value (TSum l r) x = Sum_calc (tree_value l x) (tree_value r x)"
| "tree_value (TProduct l r) x = Product_calc (tree_value l x) (tree_value r x)"

subsection \<open>The operations as the specification words them\<close>

fun spec_evaluate :: "tree \<Rightarrow> real \<Rightarrow> real" where
  "spec_evaluate (TConstant c) x = c"
| "spec_evaluate TVariable x = x"
| "spec_evaluate (TSum l r) x = spec_evaluate l x + spec_evaluate r x"
| "spec_evaluate (TProduct l r) x = spec_evaluate l x * spec_evaluate r x"

fun spec_print :: "(real \<Rightarrow> string) \<Rightarrow> tree \<Rightarrow> string" where
  "spec_print put (TConstant c) = put c"
| "spec_print put TVariable = ''x''"
| "spec_print put (TSum l r) = ''('' @ spec_print put l @ ''+'' @ spec_print put r @ '')''"
| "spec_print put (TProduct l r) = ''('' @ spec_print put l @ ''*'' @ spec_print put r @ '')''"

fun spec_derivative :: "tree \<Rightarrow> tree" where
  "spec_derivative (TConstant c) = TConstant 0"
| "spec_derivative TVariable = TConstant 1"
| "spec_derivative (TSum l r) = TSum (spec_derivative l) (spec_derivative r)"
| "spec_derivative (TProduct l r) =
     TSum (TProduct l (spec_derivative r)) (TProduct (spec_derivative l) r)"

section \<open>Properties\<close>

subsection \<open>Pointers and the store\<close>

lemma deref_make_shared:
  "deref (fst (make_shared n h)) (snd (make_shared n h)) = Inr n"
  by (simp add: make_shared_def deref_def)

lemma deref_new: "deref (h @ n # hx) (Some (length h)) = Inr n"
  by (simp add: deref_def)

lemma deref_append: "deref h p = Inr n \<Longrightarrow> deref (h @ hx) p = Inr n"
  by (auto simp: deref_def nth_append split: option.splits if_splits)

lemma repr_append: "repr h p t \<Longrightarrow> repr (h @ hx) p t"
  by (induction rule: repr.induct) (auto intro: repr.intros dest: deref_append)

text \<open>A pointer leads to one shape only.\<close>

lemma repr_functional: "repr h p t \<Longrightarrow> repr h p t' \<Longrightarrow> t = t'"
proof (induction arbitrary: t' rule: repr.induct)
  case (repr_Constant h p c)
  then show ?case by (auto elim: repr.cases)
next
  case (repr_Variable h p)
  then show ?case by (auto elim: repr.cases)
next
  case (repr_Sum h p left right l r)
  from repr_Sum.prems repr_Sum.hyps(1) obtain l' r' where
    "t' = TSum l' r'" "repr h left l'" "repr h right r'"
    by (auto elim: repr.cases)
  with repr_Sum.IH show ?case by auto
next
  case (repr_Product h p left right l r)
  from repr_Product.prems repr_Product.hyps(1) obtain l' r' where
    "t' = TProduct l' r'" "repr h left l'" "repr h right r'"
    by (auto elim: repr.cases)
  with repr_Product.IH show ?case by auto
qed

subsection \<open>The exclusive-ownership variant on well-formed trees\<close>

lemma evaluate_u_tree: "evaluate_u (tree_u t) x = Inr (tree_value t x)"
  by (induction t) (simp_all add: make_unique_def)

lemma print_u_tree: "print_u put (tree_u t) os = Inr (os @ spec_print put t)"
  by (induction t arbitrary: os) (simp_all add: make_unique_def Sum_op_def Product_op_def)

subsection \<open>The shared-ownership variant on well-formed trees\<close>

lemma evaluate_s_repr: "repr h p t \<Longrightarrow> evaluate_s h p x = Some (Inr (tree_value t x))"
  by (induction rule: repr.induct) (subst evaluate_s.simps, simp)+

lemma print_s_repr: "repr h p t \<Longrightarrow> print_s put h p os = Some (Inr (os @ spec_print put t))"
  by (induction arbitrary: os rule: repr.induct)
     ((subst print_s.simps, simp add: Sum_op_def Product_op_def)+)

lemma derivative_s_Constant:
  "deref h p = Inr (Constant_s c) \<Longrightarrow>
     derivative_s h p = Some (Inr (h @ [Constant_s 0], Some (length h)))"
  by (subst derivative_s.simps) (simp add: make_shared_def)

lemma derivative_s_Variable:
  "deref h p = Inr Variable_s \<Longrightarrow>
     derivative_s h p = Some (Inr (h @ [Constant_s 1], Some (length h)))"
  by (subst derivative_s.simps) (simp add: make_shared_def)

lemma derivative_s_Sum:
  "deref h p = Inr (Sum_s left right) \<Longrightarrow>
   derivative_s h left = Some (Inr (h1, dl)) \<Longrightarrow>
   derivative_s h1 right = Some (Inr (h2, dr)) \<Longrightarrow>
     derivative_s h p = Some (Inr (h2 @ [Sum_s dl dr], Some (length h2)))"
  by (subst derivative_s.simps) (simp add: make_shared_def)

lemma derivative_s_Product:
  "deref h p = Inr (Product_s left right) \<Longrightarrow>
   derivative_s h right = Some (Inr (h1, dr)) \<Longrightarrow>
   derivative_s (h1 @ [Product_s left dr]) left = Some (Inr (h3, dl)) \<Longrightarrow>
     derivative_s h p =
       Some (Inr (h3 @ [Product_s dl right, Sum_s (Some (length h1)) (Some (length h3))],
                  Some (Suc (length h3))))"
  by (subst derivative_s.simps) (simp add: make_shared_def)

text \<open>
  On a well-formed tree \<^verbatim>\<open>derivative\<close> returns; it only adds objects to the store, and its
  result has the shape that the rules of differentiation give.
\<close>

lemma derivative_s_repr:
  "repr h p t \<Longrightarrow>
     \<exists>hx d. derivative_s h p = Some (Inr (h @ hx, d)) \<and> repr (h @ hx) d (spec_derivative t)"
proof (induction t arbitrary: h p)
  case (TConstant c)
  then have "deref h p = Inr (Constant_s c)" by (auto elim: repr_TConstantE)
  then have "derivative_s h p = Some (Inr (h @ [Constant_s 0], Some (length h)))"
    by (rule derivative_s_Constant)
  moreover have "repr (h @ [Constant_s 0]) (Some (length h)) (TConstant 0)"
    by (rule repr_Constant) (rule deref_new)
  ultimately show ?case by auto
next
  case TVariable
  then have "deref h p = Inr Variable_s" by (auto elim: repr_TVariableE)
  then have "derivative_s h p = Some (Inr (h @ [Constant_s 1], Some (length h)))"
    by (rule derivative_s_Variable)
  moreover have "repr (h @ [Constant_s 1]) (Some (length h)) (TConstant 1)"
    by (rule repr_Constant) (rule deref_new)
  ultimately show ?case by auto
next
  case (TSum l r)
  from TSum.prems obtain left right where
    node: "deref h p = Inr (Sum_s left right)" and rl: "repr h left l" and rr: "repr h right r"
    by (auto elim: repr_TSumE)
  from TSum.IH(1) [OF rl] obtain hx1 dl where
    d1: "derivative_s h left = Some (Inr (h @ hx1, dl))"
    and r1: "repr (h @ hx1) dl (spec_derivative l)" by blast
  from rr have "repr (h @ hx1) right r" by (rule repr_append)
  from TSum.IH(2) [OF this] obtain hx2 dr where
    d2: "derivative_s (h @ hx1) right = Some (Inr ((h @ hx1) @ hx2, dr))"
    and r2: "repr ((h @ hx1) @ hx2) dr (spec_derivative r)" by blast
  let ?h2 = "(h @ hx1) @ hx2"
  have res: "derivative_s h p = Some (Inr (?h2 @ [Sum_s dl dr], Some (length ?h2)))"
    by (rule derivative_s_Sum [OF node d1 d2])
  have "repr (?h2 @ [Sum_s dl dr]) (Some (length ?h2)) (TSum (spec_derivative l) (spec_derivative r))"
  proof (rule repr_Sum)
    show "deref (?h2 @ [Sum_s dl dr]) (Some (length ?h2)) = Inr (Sum_s dl dr)"
      by (rule deref_new)
    show "repr (?h2 @ [Sum_s dl dr]) dl (spec_derivative l)"
      using repr_append [OF repr_append [OF r1]] .
    show "repr (?h2 @ [Sum_s dl dr]) dr (spec_derivative r)"
      using repr_append [OF r2] .
  qed
  with res show ?case
    by (intro exI [of _ "hx1 @ hx2 @ [Sum_s dl dr]"] exI [of _ "Some (length ?h2)"]) simp
next
  case (TProduct l r)
  from TProduct.prems obtain left right where
    node: "deref h p = Inr (Product_s left right)" and rl: "repr h left l" and rr: "repr h right r"
    by (auto elim: repr_TProductE)
  from TProduct.IH(2) [OF rr] obtain hx1 dr where
    d1: "derivative_s h right = Some (Inr (h @ hx1, dr))"
    and r1: "repr (h @ hx1) dr (spec_derivative r)" by blast
  let ?h2 = "(h @ hx1) @ [Product_s left dr]"
  from rl have "repr ?h2 left l" by (intro repr_append)
  from TProduct.IH(1) [OF this] obtain hx2 dl where
    d2: "derivative_s ?h2 left = Some (Inr (?h2 @ hx2, dl))"
    and r2: "repr (?h2 @ hx2) dl (spec_derivative l)" by blast
  let ?h3 = "?h2 @ hx2"
  let ?h5 = "?h3 @ [Product_s dl right, Sum_s (Some (length (h @ hx1))) (Some (length ?h3))]"
  have res: "derivative_s h p = Some (Inr (?h5, Some (Suc (length ?h3))))"
    by (rule derivative_s_Product [OF node d1 d2])
  have p1: "repr ?h5 (Some (length (h @ hx1))) (TProduct l (spec_derivative r))"
  proof (rule repr_Product)
    show "deref ?h5 (Some (length (h @ hx1))) = Inr (Product_s left dr)"
      by (simp add: deref_def nth_append)
    show "repr ?h5 left l" using rl by (intro repr_append)
    show "repr ?h5 dr (spec_derivative r)"
      using r1 by (rule repr_append [OF repr_append [OF repr_append]])
  qed
  have p2: "repr ?h5 (Some (length ?h3)) (TProduct (spec_derivative l) r)"
  proof (rule repr_Product)
    show "deref ?h5 (Some (length ?h3)) = Inr (Product_s dl right)"
      by (simp add: deref_def nth_append)
    show "repr ?h5 dl (spec_derivative l)" using r2 by (rule repr_append)
    show "repr ?h5 right r" using rr by (intro repr_append)
  qed
  have "repr ?h5 (Some (Suc (length ?h3)))
          (TSum (TProduct l (spec_derivative r)) (TProduct (spec_derivative l) r))"
  proof (rule repr_Sum)
    show "deref ?h5 (Some (Suc (length ?h3))) =
            Inr (Sum_s (Some (length (h @ hx1))) (Some (length ?h3)))"
      by (simp add: deref_def nth_append)
  qed (rule p1, rule p2)
  with res show ?case
    by (intro exI [of _ "hx1 @ [Product_s left dr] @ hx2 @
          [Product_s dl right, Sum_s (Some (length (h @ hx1))) (Some (length ?h3))]"]
        exI [of _ "Some (Suc (length ?h3))"]) simp
qed

text \<open>
  \<^verbatim>\<open>derivative\<close> never changes an object that exists: on any store, well-formed or not,
  the store it returns is the store it was given with new objects appended.
\<close>

lemma derivative_s_extends_aux:
  "derivative_s h p = Some y \<Longrightarrow> \<forall>h' d. y = Inr (h', d) \<longrightarrow> (\<exists>hx. h' = h @ hx)"
proof (induct rule: derivative_s.raw_induct [rotated 1, consumes 1, case_names step])
  case (step derivative_s h p y)
  show ?case
  proof (intro allI impI)
    fix h' d
    assume y: "y = Inr (h', d)"
    show "\<exists>hx. h' = h @ hx"
    proof (cases "deref h p")
      case (Inl e)
      with step(2) y show ?thesis by simp
    next
      case (Inr n)
      show ?thesis
      proof (cases n)
        case (Constant_s c)
        with step(2) y Inr show ?thesis by (auto simp: make_shared_def)
      next
        case Variable_s
        with step(2) y Inr show ?thesis by (auto simp: make_shared_def)
      next
        case (Sum_s left right)
        with step(2) y Inr obtain h1 dl h2 dr where
          a: "derivative_s h left = Some (Inr (h1, dl))"
          and b: "derivative_s h1 right = Some (Inr (h2, dr))"
          and c: "h' = h2 @ [Sum_s dl dr]"
          by (auto simp: make_shared_def split: bind_splits sum.splits prod.splits)
        from step(1) [OF a] step(1) [OF b] c show ?thesis by auto
      next
        case (Product_s left right)
        with step(2) y Inr obtain h1 dr h3 dl where
          a: "derivative_s h right = Some (Inr (h1, dr))"
          and b: "derivative_s (h1 @ [Product_s left dr]) left = Some (Inr (h3, dl))"
          and c: "h' = h3 @ [Product_s dl right, Sum_s (Some (length h1)) (Some (length h3))]"
          by (auto simp: make_shared_def split: bind_splits sum.splits prod.splits)
        from step(1) [OF a] step(1) [OF b] c show ?thesis by auto
      qed
    qed
  qed
qed

lemma derivative_s_extends:
  "derivative_s h p = Some (Inr (h', d)) \<Longrightarrow> \<exists>hx. h' = h @ hx"
  using derivative_s_extends_aux by blast

text \<open>
  What the store holds is therefore read the same way before and after a call.
\<close>

lemma derivative_s_frame:
  assumes d: "derivative_s h p = Some (Inr (h', d))"
  shows "take (length h) h' = h"
    and "repr h q t \<Longrightarrow> repr h' q t"
    and "repr h q t \<Longrightarrow> evaluate_s h' q x = evaluate_s h q x"
    and "repr h q t \<Longrightarrow> print_s put h' q os = print_s put h q os"
    and "deref h q = Inr n \<Longrightarrow> deref h' q = Inr n"
proof -
  from derivative_s_extends [OF d] obtain hx where h': "h' = h @ hx" ..
  show "take (length h) h' = h" by (simp add: h')
  show r: "repr h q t \<Longrightarrow> repr h' q t" for q t by (simp add: h' repr_append)
  show "repr h q t \<Longrightarrow> evaluate_s h' q x = evaluate_s h q x"
    using r [of q t] by (simp add: evaluate_s_repr)
  show "repr h q t \<Longrightarrow> print_s put h' q os = print_s put h q os"
    using r [of q t] by (simp add: print_s_repr)
  show "deref h q = Inr n \<Longrightarrow> deref h' q = Inr n" by (simp add: h' deref_append)
qed

text \<open>
  The calls that \<^verbatim>\<open>Product::derivative\<close> makes on a product of two well-formed children,
  in the order of the model, and the store and pointer it returns.
\<close>

lemma derivative_s_Product_repr:
  assumes node: "deref h p = Inr (Product_s left right)"
    and rl: "repr h left l" and rr: "repr h right r"
  shows "\<exists>hx1 dr hx2 dl.
      derivative_s h right = Some (Inr (h @ hx1, dr))
    \<and> repr (h @ hx1) dr (spec_derivative r)
    \<and> derivative_s ((h @ hx1) @ [Product_s left dr]) left =
        Some (Inr (((h @ hx1) @ [Product_s left dr]) @ hx2, dl))
    \<and> repr (((h @ hx1) @ [Product_s left dr]) @ hx2) dl (spec_derivative l)
    \<and> derivative_s h p =
        Some (Inr ((((h @ hx1) @ [Product_s left dr]) @ hx2) @
                   [Product_s dl right,
                    Sum_s (Some (length (h @ hx1)))
                          (Some (length (((h @ hx1) @ [Product_s left dr]) @ hx2)))],
                   Some (Suc (length (((h @ hx1) @ [Product_s left dr]) @ hx2)))))"
proof -
  from derivative_s_repr [OF rr] obtain hx1 dr where
    d1: "derivative_s h right = Some (Inr (h @ hx1, dr))"
    and r1: "repr (h @ hx1) dr (spec_derivative r)" by blast
  let ?h2 = "(h @ hx1) @ [Product_s left dr]"
  from rl have "repr ?h2 left l" by (intro repr_append)
  from derivative_s_repr [OF this] obtain hx2 dl where
    d2: "derivative_s ?h2 left = Some (Inr (?h2 @ hx2, dl))"
    and r2: "repr (?h2 @ hx2) dl (spec_derivative l)" by blast
  note res = derivative_s_Product [OF node d1 d2]
  from d1 r1 d2 r2 res show ?thesis by blast
qed

lemma deref_None: "deref h None = Inl NullDereference"
  by (simp add: deref_def)

subsection \<open>The raw-pointer listing\<close>

text \<open>
  \<^verbatim>\<open>Product::evaluate\<close> of the listing multiplies, and \<^verbatim>\<open>Product::print\<close> of the listing
  writes the left child, \<^verbatim>\<open>*\<close> and the right child, with nothing before or after.
\<close>

lemma lesson_Product_evaluate_multiplies:
  "ptr_evaluate_r (new_r (Product_r (new_r (Constant_r 2)) (new_r (Constant_r 3)))) 0 = Inr 6"
  by (simp add: new_r_def)

lemma Product_r_print:
  "ptr_print_r put left os = Inr os1 \<Longrightarrow> ptr_print_r put right (os1 @ ''*'') = Inr os2 \<Longrightarrow>
     print_r put (Product_r left right) os = Inr os2"
  by simp

subsection \<open>The trees of \<^verbatim>\<open>main\<close>, and trees built bottom-up\<close>

lemma main_s_eq:
  "main_s = ([Constant_s 4, Constant_s 5, Variable_s, Sum_s (Some 1) (Some 2),
              Product_s (Some 0) (Some 3)], Some 4)"
  by (simp add: main_s_def make_shared_def)

lemma main_s_build:
  "main_s = build_s (TProduct (TConstant 4) (TSum (TConstant 5) TVariable)) []"
  by (simp add: main_s_def make_shared_def)

lemma main_u_tree:
  "main_u = make_unique (tree_u (TProduct (TConstant 4) (TSum (TConstant 5) TVariable)))"
  by (simp add: main_u_def)

text \<open>Building a tree bottom-up only adds objects, and the pointer returned leads to it.\<close>

lemma repr_build_s: "repr (fst (build_s t h)) (snd (build_s t h)) t \<and> (\<exists>hx. fst (build_s t h) = h @ hx)"
proof (induction t arbitrary: h)
  case (TConstant c)
  show ?case by (auto simp: make_shared_def intro!: repr_Constant deref_new)
next
  case TVariable
  show ?case by (auto simp: make_shared_def intro!: repr_Variable deref_new)
next
  case (TSum l r)
  obtain h1 left where b1: "build_s l h = (h1, left)" by (cases "build_s l h")
  obtain h2 right where b2: "build_s r h1 = (h2, right)" by (cases "build_s r h1")
  from TSum.IH(1) [of h] b1 obtain hx1 where r1: "repr h1 left l" and e1: "h1 = h @ hx1" by auto
  from TSum.IH(2) [of h1] b2 obtain hx2 where r2: "repr h2 right r" and e2: "h2 = h1 @ hx2" by auto
  have l2: "repr h2 left l" using r1 e2 by (simp add: repr_append)
  have "repr (h2 @ [Sum_s left right]) (Some (length h2)) (TSum l r)"
    by (rule repr_Sum [OF deref_new repr_append [OF l2] repr_append [OF r2]])
  then show ?case using b1 b2 e1 e2 by (simp add: make_shared_def)
next
  case (TProduct l r)
  obtain h1 left where b1: "build_s l h = (h1, left)" by (cases "build_s l h")
  obtain h2 right where b2: "build_s r h1 = (h2, right)" by (cases "build_s r h1")
  from TProduct.IH(1) [of h] b1 obtain hx1 where r1: "repr h1 left l" and e1: "h1 = h @ hx1" by auto
  from TProduct.IH(2) [of h1] b2 obtain hx2 where r2: "repr h2 right r" and e2: "h2 = h1 @ hx2" by auto
  have l2: "repr h2 left l" using r1 e2 by (simp add: repr_append)
  have "repr (h2 @ [Product_s left right]) (Some (length h2)) (TProduct l r)"
    by (rule repr_Product [OF deref_new repr_append [OF l2] repr_append [OF r2]])
  then show ?case using b1 b2 e1 e2 by (simp add: make_shared_def)
qed

lemma repr_main_s:
  "repr (fst main_s) (snd main_s) (TProduct (TConstant 4) (TSum (TConstant 5) TVariable))"
  unfolding main_s_build using repr_build_s by blast

lemma deref_main_s: "deref (fst main_s) (snd main_s) = Inr (Product_s (Some 0) (Some 3))"
  by (simp add: main_s_eq deref_def)

lemma repr_main_s_left: "repr (fst main_s) (Some 0) (TConstant 4)"
  by (simp add: repr_Constant deref_def main_s_eq)

lemma repr_main_s_right: "repr (fst main_s) (Some 3) (TSum (TConstant 5) TVariable)"
  unfolding main_s_eq fst_conv
  by (rule repr_Sum [where left = "Some 1" and right = "Some 2"])
     (simp_all add: deref_def repr_Constant repr_Variable)

section \<open>The claims\<close>

subsection \<open>C1: the value of a product\<close>

text \<open>
  C1 says that \<^verbatim>\<open>Product(l, r).evaluate(x)\<close> is the product of the children's values.
  In both files \<^verbatim>\<open>Product::calc\<close> returns \<^verbatim>\<open>a+b\<close>, so a product evaluates to the
  sum of its children. The lesson text (\<^verbatim>\<open>block-2b.md\<close>, \<^verbatim>\<open>Product::evaluate\<close>) multiplies,
  \<^verbatim>\<open>Product::op\<close> prints \<^verbatim>\<open>*\<close>, and \<^verbatim>\<open>main\<close> comments the tree as \<^verbatim>\<open>4 * (5+x)\<close>.
\<close>

lemma Product_evaluates_to_sum:
  "evaluate_u (tree_u (TProduct l r)) x = Inr (tree_value l x + tree_value r x)"
  by (simp add: evaluate_u_tree make_unique_def Product_calc_def)

text \<open>
  C1, at \<^verbatim>\<open>Product(Constant(2), Constant(3))\<close>: both variants return 5, where the
  product of the children's values is 6.
\<close>

theorem Product_calc_adds:
  "ptr_evaluate_u
     (make_unique (Product_u (make_unique (Constant_u 2)) (make_unique (Constant_u 3)))) 0
     = Inr 5
   \<and> evaluate_s [Constant_s 2, Constant_s 3, Product_s (Some 0) (Some 1)] (Some 2) 0
     = Some (Inr 5)
   \<and> spec_evaluate (TProduct (TConstant 2) (TConstant 3)) 0 = 6"
  by (simp add: make_unique_def Product_calc_def evaluate_s.simps deref_def)

subsection \<open>C2: the two variants\<close>

text \<open>
  C2 says that in both variants every node supports \<^verbatim>\<open>evaluate\<close>, \<^verbatim>\<open>print\<close> and
  \<^verbatim>\<open>derivative\<close>. As stated this fails: \<^verbatim>\<open>class Expression\<close> of the exclusive-ownership
  file declares \<^verbatim>\<open>evaluate\<close> and \<^verbatim>\<open>print\<close> only, and no class of that file has a
  \<^verbatim>\<open>derivative\<close>.
\<close>

theorem unique_variant_has_no_derivative:
  "Derivative \<notin> set Expression_u_methods"
  by (simp add: Expression_u_methods_def)

text \<open>
  C2 as amended: both variants support \<^verbatim>\<open>evaluate\<close> and \<^verbatim>\<open>print\<close>, and only the
  shared-ownership variant supports \<^verbatim>\<open>derivative\<close>; for every tree \<open>t\<close>, built with
  \<^verbatim>\<open>std::make_unique\<close> in the one and bottom-up with \<^verbatim>\<open>std::make_shared\<close> on any store in
  the other, \<^verbatim>\<open>evaluate\<close> returns the same number at every \<open>x\<close> and \<^verbatim>\<open>print\<close> leaves the
  same characters in every stream.
\<close>

theorem variants_agree_on_evaluate_and_print:
  "set Expression_u_methods = {Evaluate, Print}
   \<and> set Expression_s_methods = {Evaluate, Print, Derivative}
   \<and> evaluate_s (fst (build_s t h)) (snd (build_s t h)) x =
       Some (ptr_evaluate_u (make_unique (tree_u t)) x)
   \<and> print_s put (fst (build_s t h)) (snd (build_s t h)) os =
       Some (ptr_print_u put (make_unique (tree_u t)) os)"
proof -
  have r: "repr (fst (build_s t h)) (snd (build_s t h)) t" using repr_build_s by blast
  show ?thesis
    by (auto simp add: Expression_u_methods_def Expression_s_methods_def make_unique_def
        evaluate_s_repr [OF r] print_s_repr [OF r] evaluate_u_tree print_u_tree)
qed

subsection \<open>C3: printing a binary node\<close>

text \<open>
  In the two programs \<^verbatim>\<open>TwoOp::print\<close> is final and prints every binary node between
  parentheses. For each kind of node on its own: when the children are well-formed, of
  shapes \<open>l\<close> and \<open>r\<close>, printing a child into an empty stream writes the fully
  parenthesized text of its shape, and printing the node appends an opening parenthesis,
  the left child's text, the operator, the right child's text and a closing parenthesis.
  Every pointer that leads to a well-formed tree is covered, at every depth, by
  \<open>print_s_repr\<close> and \<open>print_u_tree\<close>.
\<close>

lemma TwoOp_print_Sum_s:
  assumes node: "deref h p = Inr (Sum_s left right)"
    and rl: "repr h left l" and rr: "repr h right r"
  shows "print_s put h left [] = Some (Inr (spec_print put l))"
    and "print_s put h right [] = Some (Inr (spec_print put r))"
    and "print_s put h p os =
           Some (Inr (os @ ''('' @ spec_print put l @ ''+'' @ spec_print put r @ '')''))"
  using print_s_repr [OF rl, of put "[]"] print_s_repr [OF rr, of put "[]"]
    print_s_repr [OF repr_Sum [OF node rl rr], of put os]
  by simp_all

lemma TwoOp_print_Product_s:
  assumes node: "deref h p = Inr (Product_s left right)"
    and rl: "repr h left l" and rr: "repr h right r"
  shows "print_s put h left [] = Some (Inr (spec_print put l))"
    and "print_s put h right [] = Some (Inr (spec_print put r))"
    and "print_s put h p os =
           Some (Inr (os @ ''('' @ spec_print put l @ ''*'' @ spec_print put r @ '')''))"
  using print_s_repr [OF rl, of put "[]"] print_s_repr [OF rr, of put "[]"]
    print_s_repr [OF repr_Product [OF node rl rr], of put os]
  by simp_all

lemma TwoOp_print_u:
  "print_u put (tree_u l) [] = Inr (spec_print put l)"
  "print_u put (tree_u r) [] = Inr (spec_print put r)"
  "print_u put (Sum_u (make_unique (tree_u l)) (make_unique (tree_u r))) os =
     Inr (os @ ''('' @ spec_print put l @ ''+'' @ spec_print put r @ '')'')"
  "print_u put (Product_u (make_unique (tree_u l)) (make_unique (tree_u r))) os =
     Inr (os @ ''('' @ spec_print put l @ ''*'' @ spec_print put r @ '')'')"
  using print_u_tree [of put "TSum l r" os] print_u_tree [of put "TProduct l r" os]
  by (simp_all add: print_u_tree)

text \<open>
  C3 says that printing a binary node always writes the fully parenthesized form, for a
  \<^verbatim>\<open>Product\<close> as for a \<^verbatim>\<open>Sum\<close>. The raw-pointer listing of the lesson does not:
  its \<^verbatim>\<open>Product::print\<close> (\<^verbatim>\<open>block-2b.md\<close>, lines 166 to 170) writes no parentheses, where
  \<^verbatim>\<open>Sum::print\<close> of the same listing, \<^verbatim>\<open>TwoOp::print\<close> of the lesson's next listing and
  \<^verbatim>\<open>TwoOp::print\<close> of both programs write them. On the tree \<^verbatim>\<open>4 * (5+x)\<close> the listing
  appends the rendering of 4, \<^verbatim>\<open>*(\<close>, the rendering of 5 and \<^verbatim>\<open>+x)\<close> to the stream; both
  programs append the fully parenthesized text, with one more parenthesis at each end.
  The two texts differ in every stream and for every rendering of numbers.
\<close>

theorem lesson_Product_print_omits_parentheses:
  "ptr_print_r put main_r os = Inr (os @ put 4 @ ''*('' @ put 5 @ ''+x)'')
   \<and> ptr_print_u put main_u os = Inr (os @ ''('' @ put 4 @ ''*('' @ put 5 @ ''+x))'')
   \<and> print_s put (fst main_s) (snd main_s) os =
       Some (Inr (os @ ''('' @ put 4 @ ''*('' @ put 5 @ ''+x))''))
   \<and> spec_print put (TProduct (TConstant 4) (TSum (TConstant 5) TVariable)) =
       ''('' @ put 4 @ ''*('' @ put 5 @ ''+x))''
   \<and> os @ put 4 @ ''*('' @ put 5 @ ''+x)'' \<noteq> os @ ''('' @ put 4 @ ''*('' @ put 5 @ ''+x))''"
proof -
  have a: "ptr_print_r put main_r os = Inr (os @ put 4 @ ''*('' @ put 5 @ ''+x)'')"
    by (simp add: main_r_def new_r_def)
  have b: "ptr_print_u put main_u os = Inr (os @ ''('' @ put 4 @ ''*('' @ put 5 @ ''+x))'')"
    by (simp add: main_u_def make_unique_def Sum_op_def Product_op_def)
  have c: "print_s put (fst main_s) (snd main_s) os =
       Some (Inr (os @ ''('' @ put 4 @ ''*('' @ put 5 @ ''+x))''))"
    using print_s_repr [OF repr_main_s, of put os] by simp
  have d: "spec_print put (TProduct (TConstant 4) (TSum (TConstant 5) TVariable)) =
       ''('' @ put 4 @ ''*('' @ put 5 @ ''+x))''"
    by simp
  have "length (os @ put 4 @ ''*('' @ put 5 @ ''+x)'')
          \<noteq> length (os @ ''('' @ put 4 @ ''*('' @ put 5 @ ''+x))'')"
    by simp
  then have e: "os @ put 4 @ ''*('' @ put 5 @ ''+x)'' \<noteq> os @ ''('' @ put 4 @ ''*('' @ put 5 @ ''+x))''"
    by metis
  from a b c d e show ?thesis by blast
qed

subsection \<open>C4: a null child\<close>

text \<open>
  C4 says that a combinator constructor rejects a null child at construction time. As
  stated this fails: \<^verbatim>\<open>TwoOp::TwoOp\<close> only stores its two arguments. A \<^verbatim>\<open>Sum\<close> built by
  \<^verbatim>\<open>std::make_shared\<close> from two null pointers is in the store afterwards, and the failure
  comes when \<^verbatim>\<open>evaluate\<close> dereferences the child; likewise for a \<^verbatim>\<open>Product\<close> built by
  \<^verbatim>\<open>std::make_unique\<close>.
\<close>

theorem null_child_is_accepted:
  "deref (fst (make_shared (Sum_s None None) [])) (snd (make_shared (Sum_s None None) []))
     = Inr (Sum_s None None)
   \<and> evaluate_s (fst (make_shared (Sum_s None None) []))
       (snd (make_shared (Sum_s None None) [])) 0 = Some (Inl NullDereference)
   \<and> make_unique (Product_u None None) = Some (Product_u None None)
   \<and> ptr_evaluate_u (make_unique (Product_u None None)) 0 = Inl NullDereference"
  by (simp add: make_shared_def make_unique_def deref_def evaluate_s.simps)

text \<open>
  C4 as amended: the constructors check nothing. Whatever pointers they are given, null
  included, construction succeeds and the new node holds exactly these children. A null
  child is met only by the operation that dereferences it: \<^verbatim>\<open>evaluate\<close> and \<^verbatim>\<open>print\<close> fail
  on a node whose left child is null, in both variants, and \<^verbatim>\<open>derivative\<close> fails on a
  \<^verbatim>\<open>Sum\<close> whose left child is null and on a \<^verbatim>\<open>Product\<close> whose right child is null (the
  child that the model differentiates first).
\<close>

theorem null_child_fails_at_use:
  "deref (fst (make_shared (Sum_s l r) h)) (snd (make_shared (Sum_s l r) h)) = Inr (Sum_s l r)
   \<and> deref (fst (make_shared (Product_s l r) h)) (snd (make_shared (Product_s l r) h))
       = Inr (Product_s l r)
   \<and> evaluate_s (fst (make_shared (Sum_s None r) h)) (snd (make_shared (Sum_s None r) h)) x
       = Some (Inl NullDereference)
   \<and> evaluate_s (fst (make_shared (Product_s None r) h))
       (snd (make_shared (Product_s None r) h)) x = Some (Inl NullDereference)
   \<and> print_s put (fst (make_shared (Sum_s None r) h)) (snd (make_shared (Sum_s None r) h)) os
       = Some (Inl NullDereference)
   \<and> print_s put (fst (make_shared (Product_s None r) h))
       (snd (make_shared (Product_s None r) h)) os = Some (Inl NullDereference)
   \<and> derivative_s (fst (make_shared (Sum_s None r) h)) (snd (make_shared (Sum_s None r) h))
       = Some (Inl NullDereference)
   \<and> derivative_s (fst (make_shared (Product_s l None) h))
       (snd (make_shared (Product_s l None) h)) = Some (Inl NullDereference)
   \<and> make_unique (Sum_u ul ur) = Some (Sum_u ul ur)
   \<and> make_unique (Product_u ul ur) = Some (Product_u ul ur)
   \<and> ptr_evaluate_u (make_unique (Sum_u None ur)) x = Inl NullDereference
   \<and> ptr_evaluate_u (make_unique (Product_u None ur)) x = Inl NullDereference
   \<and> ptr_print_u put (make_unique (Sum_u None ur)) os = Inl NullDereference
   \<and> ptr_print_u put (make_unique (Product_u None ur)) os = Inl NullDereference"
proof -
  have e: "evaluate_s h' None x = Some (Inl NullDereference)" for h'
    by (subst evaluate_s.simps) (simp add: deref_None)
  have p: "print_s put h' None os' = Some (Inl NullDereference)" for h' os'
    by (subst print_s.simps) (simp add: deref_None)
  have d: "derivative_s h' None = Some (Inl NullDereference)" for h'
    by (subst derivative_s.simps) (simp add: deref_None)
  show ?thesis
    apply (intro conjI)
                 apply (simp add: deref_make_shared)
                apply (simp add: deref_make_shared)
               apply (subst evaluate_s.simps, simp add: deref_make_shared e)
              apply (subst evaluate_s.simps, simp add: deref_make_shared e)
             apply (subst print_s.simps, simp add: deref_make_shared p)
            apply (subst print_s.simps, simp add: deref_make_shared p)
           apply (subst derivative_s.simps, simp add: deref_make_shared d)
          apply (subst derivative_s.simps, simp add: deref_make_shared d)
         apply (simp_all add: make_unique_def)
    done
qed

subsection \<open>C5: the tree of \<^verbatim>\<open>main\<close>\<close>

text \<open>
  C5 says that \<^verbatim>\<open>Product(Constant(4), Sum(Constant(5), Variable()))\<close> prints as
  \<^verbatim>\<open>(4*(5+x))\<close> and evaluates to 60 at 10. Both variants print an opening parenthesis,
  the stream's rendering of 4, \<^verbatim>\<open>*(\<close>, the rendering of 5 and \<^verbatim>\<open>+x))\<close>; both evaluate
  to 19 at 10, which is \<^verbatim>\<open>4+(5+10)\<close>, because \<^verbatim>\<open>Product::calc\<close> adds.
\<close>

theorem main_prints_and_evaluates:
  "ptr_print_u put main_u [] = Inr (''('' @ put 4 @ ''*('' @ put 5 @ ''+x))'')
   \<and> print_s put (fst main_s) (snd main_s) [] =
       Some (Inr (''('' @ put 4 @ ''*('' @ put 5 @ ''+x))''))
   \<and> ptr_evaluate_u main_u 10 = Inr 19
   \<and> evaluate_s (fst main_s) (snd main_s) 10 = Some (Inr 19)
   \<and> spec_evaluate (TProduct (TConstant 4) (TSum (TConstant 5) TVariable)) 10 = 60"
  by (simp add: main_s_eq main_u_def make_unique_def Product_calc_def Sum_calc_def
      Sum_op_def Product_op_def evaluate_s.simps print_s.simps deref_def)

subsection \<open>C6: the derivative of a product\<close>

text \<open>
  C6: let \<open>p\<close> point to a \<^verbatim>\<open>Product\<close> whose children \<open>left\<close> and \<open>right\<close> are well-formed,
  of shapes \<open>l\<close> and \<open>r\<close>. Then \<^verbatim>\<open>derivative\<close> returns a pointer to a new \<^verbatim>\<open>Sum\<close> of two
  new \<^verbatim>\<open>Product\<close> nodes. The first holds the original pointer \<open>left\<close> and the pointer
  that \<^verbatim>\<open>right->derivative()\<close> returned; the second holds the pointer that
  \<^verbatim>\<open>left->derivative()\<close> returned and the original pointer \<open>right\<close>. The originals still
  have their shapes, and nothing is simplified: the result has the shape
  \<open>TSum (TProduct l r') (TProduct l' r)\<close> for the derivatives \<open>l'\<close> and \<open>r'\<close>.
\<close>

theorem derivative_Product_structure:
  assumes node: "deref h p = Inr (Product_s left right)"
    and rl: "repr h left l" and rr: "repr h right r"
  shows "\<exists>h' d p1 p2 dl dr.
      derivative_s h p = Some (Inr (h', d))
    \<and> deref h' d = Inr (Sum_s p1 p2)
    \<and> deref h' p1 = Inr (Product_s left dr)
    \<and> deref h' p2 = Inr (Product_s dl right)
    \<and> (\<exists>h1. derivative_s h right = Some (Inr (h1, dr)))
    \<and> (\<exists>h2 h3. take (length h) h2 = h \<and> derivative_s h2 left = Some (Inr (h3, dl)))
    \<and> repr h' left l \<and> repr h' right r
    \<and> repr h' dl (spec_derivative l) \<and> repr h' dr (spec_derivative r)
    \<and> repr h' d (TSum (TProduct l (spec_derivative r)) (TProduct (spec_derivative l) r))"
proof -
  from derivative_s_Product_repr [OF node rl rr] obtain hx1 dr hx2 dl where
    d1: "derivative_s h right = Some (Inr (h @ hx1, dr))"
    and r1: "repr (h @ hx1) dr (spec_derivative r)"
    and d2: "derivative_s ((h @ hx1) @ [Product_s left dr]) left =
        Some (Inr (((h @ hx1) @ [Product_s left dr]) @ hx2, dl))"
    and r2: "repr (((h @ hx1) @ [Product_s left dr]) @ hx2) dl (spec_derivative l)"
    and res: "derivative_s h p =
        Some (Inr ((((h @ hx1) @ [Product_s left dr]) @ hx2) @
                   [Product_s dl right,
                    Sum_s (Some (length (h @ hx1)))
                          (Some (length (((h @ hx1) @ [Product_s left dr]) @ hx2)))],
                   Some (Suc (length (((h @ hx1) @ [Product_s left dr]) @ hx2)))))"
    by blast
  let ?h3 = "((h @ hx1) @ [Product_s left dr]) @ hx2"
  let ?p1 = "Some (length (h @ hx1))"
  let ?p2 = "Some (length ?h3)"
  let ?d = "Some (Suc (length ?h3))"
  let ?h' = "?h3 @ [Product_s dl right, Sum_s ?p1 ?p2]"
  have n0: "deref ?h' ?d = Inr (Sum_s ?p1 ?p2)"
    by (simp add: deref_def nth_append)
  have n1: "deref ?h' ?p1 = Inr (Product_s left dr)"
    by (simp add: deref_def nth_append)
  have n2: "deref ?h' ?p2 = Inr (Product_s dl right)"
    by (simp add: deref_def nth_append)
  have kl: "repr ?h' left l" using rl by (intro repr_append)
  have kr: "repr ?h' right r" using rr by (intro repr_append)
  have kdl: "repr ?h' dl (spec_derivative l)" using r2 by (rule repr_append)
  have kdr: "repr ?h' dr (spec_derivative r)"
    using r1 by (rule repr_append [OF repr_append [OF repr_append]])
  have whole: "repr ?h' ?d (TSum (TProduct l (spec_derivative r)) (TProduct (spec_derivative l) r))"
    by (rule repr_Sum [OF n0 repr_Product [OF n1 kl kdr] repr_Product [OF n2 kdl kr]])
  have t2: "take (length h) ((h @ hx1) @ [Product_s left dr]) = h" by simp
  from res n0 n1 n2 d1 d2 t2 kl kr kdl kdr whole show ?thesis by blast
qed

theorem derivative_Product_structure_witness:
  "deref (fst main_s) (snd main_s) = Inr (Product_s (Some 0) (Some 3))
   \<and> repr (fst main_s) (Some 0) (TConstant 4)
   \<and> repr (fst main_s) (Some 3) (TSum (TConstant 5) TVariable)
   \<and> (\<exists>h' d p1 p2 dl dr.
        derivative_s (fst main_s) (snd main_s) = Some (Inr (h', d))
      \<and> deref h' d = Inr (Sum_s p1 p2)
      \<and> deref h' p1 = Inr (Product_s (Some 0) dr)
      \<and> deref h' p2 = Inr (Product_s dl (Some 3))
      \<and> repr h' d (TSum (TProduct (TConstant 4) (TSum (TConstant 0) (TConstant 1)))
                          (TProduct (TConstant 0) (TSum (TConstant 5) TVariable))))"
proof -
  from derivative_Product_structure [OF deref_main_s repr_main_s_left repr_main_s_right]
  have "\<exists>h' d p1 p2 dl dr.
        derivative_s (fst main_s) (snd main_s) = Some (Inr (h', d))
      \<and> deref h' d = Inr (Sum_s p1 p2)
      \<and> deref h' p1 = Inr (Product_s (Some 0) dr)
      \<and> deref h' p2 = Inr (Product_s dl (Some 3))
      \<and> repr h' d (TSum (TProduct (TConstant 4) (TSum (TConstant 0) (TConstant 1)))
                          (TProduct (TConstant 0) (TSum (TConstant 5) TVariable)))"
    by (simp del: ex_simps) blast
  with deref_main_s repr_main_s_left repr_main_s_right show ?thesis by blast
qed

subsection \<open>C7: no operation changes the tree\<close>

text \<open>
  C7: \<^verbatim>\<open>evaluate\<close> and \<^verbatim>\<open>print\<close> are \<^verbatim>\<open>const\<close> member functions that write to nothing
  but the stream, so the model gives them no store to return. \<^verbatim>\<open>derivative\<close> returns a
  store; for a \<^verbatim>\<open>Product\<close> at \<open>p\<close> with well-formed children, that store agrees with the
  old one on every old address, \<open>p\<close> still holds the same two children, the new
  \<^verbatim>\<open>Product\<close> nodes hold the very same pointers \<open>left\<close> and \<open>right\<close>, and \<open>left\<close>,
  \<open>right\<close> and \<open>p\<close> evaluate and print afterwards exactly as before.
\<close>

theorem derivative_does_not_mutate:
  assumes node: "deref h p = Inr (Product_s left right)"
    and rl: "repr h left l" and rr: "repr h right r"
  shows "\<exists>h' d p1 p2 dl dr.
      derivative_s h p = Some (Inr (h', d))
    \<and> take (length h) h' = h
    \<and> deref h' p = Inr (Product_s left right)
    \<and> deref h' d = Inr (Sum_s p1 p2)
    \<and> deref h' p1 = Inr (Product_s left dr)
    \<and> deref h' p2 = Inr (Product_s dl right)
    \<and> (\<forall>x. evaluate_s h' left x = evaluate_s h left x
           \<and> evaluate_s h' right x = evaluate_s h right x
           \<and> evaluate_s h' p x = evaluate_s h p x
           \<and> evaluate_s h' left x = Some (Inr (tree_value l x))
           \<and> evaluate_s h' right x = Some (Inr (tree_value r x)))
    \<and> (\<forall>put os. print_s put h' left os = print_s put h left os
           \<and> print_s put h' right os = print_s put h right os
           \<and> print_s put h' p os = print_s put h p os
           \<and> print_s put h' left os = Some (Inr (os @ spec_print put l))
           \<and> print_s put h' right os = Some (Inr (os @ spec_print put r)))"
proof -
  from derivative_s_Product_repr [OF node rl rr] obtain hx1 dr hx2 dl where
    res: "derivative_s h p =
        Some (Inr ((((h @ hx1) @ [Product_s left dr]) @ hx2) @
                   [Product_s dl right,
                    Sum_s (Some (length (h @ hx1)))
                          (Some (length (((h @ hx1) @ [Product_s left dr]) @ hx2)))],
                   Some (Suc (length (((h @ hx1) @ [Product_s left dr]) @ hx2)))))"
    by blast
  let ?h3 = "((h @ hx1) @ [Product_s left dr]) @ hx2"
  let ?p1 = "Some (length (h @ hx1))"
  let ?p2 = "Some (length ?h3)"
  let ?d = "Some (Suc (length ?h3))"
  let ?h' = "?h3 @ [Product_s dl right, Sum_s ?p1 ?p2]"
  have n0: "deref ?h' ?d = Inr (Sum_s ?p1 ?p2)"
    by (simp add: deref_def nth_append)
  have n1: "deref ?h' ?p1 = Inr (Product_s left dr)"
    by (simp add: deref_def nth_append)
  have n2: "deref ?h' ?p2 = Inr (Product_s dl right)"
    by (simp add: deref_def nth_append)
  have rp: "repr h p (TProduct l r)" by (rule repr_Product [OF node rl rr])
  note fr = derivative_s_frame [OF res]
  have ev: "\<forall>x. evaluate_s ?h' left x = evaluate_s h left x
           \<and> evaluate_s ?h' right x = evaluate_s h right x
           \<and> evaluate_s ?h' p x = evaluate_s h p x
           \<and> evaluate_s ?h' left x = Some (Inr (tree_value l x))
           \<and> evaluate_s ?h' right x = Some (Inr (tree_value r x))"
    using fr(3) [OF rl] fr(3) [OF rr] fr(3) [OF rp] evaluate_s_repr [OF rl] evaluate_s_repr [OF rr]
    by simp
  have pr: "\<forall>put os. print_s put ?h' left os = print_s put h left os
           \<and> print_s put ?h' right os = print_s put h right os
           \<and> print_s put ?h' p os = print_s put h p os
           \<and> print_s put ?h' left os = Some (Inr (os @ spec_print put l))
           \<and> print_s put ?h' right os = Some (Inr (os @ spec_print put r))"
    using fr(4) [OF rl] fr(4) [OF rr] fr(4) [OF rp] print_s_repr [OF rl] print_s_repr [OF rr]
    by simp
  from res fr(1) fr(5) [OF node] n0 n1 n2 ev pr show ?thesis by blast
qed

theorem derivative_does_not_mutate_witness:
  "deref (fst main_s) (snd main_s) = Inr (Product_s (Some 0) (Some 3))
   \<and> repr (fst main_s) (Some 0) (TConstant 4)
   \<and> repr (fst main_s) (Some 3) (TSum (TConstant 5) TVariable)
   \<and> (\<exists>h' d. derivative_s (fst main_s) (snd main_s) = Some (Inr (h', d))
        \<and> take (length (fst main_s)) h' = fst main_s
        \<and> deref h' (snd main_s) = Inr (Product_s (Some 0) (Some 3))
        \<and> evaluate_s h' (Some 3) 10 = Some (Inr 15)
        \<and> evaluate_s (fst main_s) (Some 3) 10 = Some (Inr 15))"
proof -
  from derivative_does_not_mutate [OF deref_main_s repr_main_s_left repr_main_s_right]
  obtain h' d where
    a: "derivative_s (fst main_s) (snd main_s) = Some (Inr (h', d))"
    and b: "take (length (fst main_s)) h' = fst main_s"
    and c: "deref h' (snd main_s) = Inr (Product_s (Some 0) (Some 3))"
    and e: "\<forall>x. evaluate_s h' (Some 3) x = evaluate_s (fst main_s) (Some 3) x"
    by blast
  have f: "evaluate_s (fst main_s) (Some 3) 10 = Some (Inr 15)"
    by (simp add: evaluate_s_repr [OF repr_main_s_right] Sum_calc_def)
  from a b c e f deref_main_s repr_main_s_left repr_main_s_right show ?thesis by auto
qed

subsection \<open>C8: the operations are total on well-formed trees\<close>

text \<open>
  C8: on a well-formed tree each of \<^verbatim>\<open>evaluate\<close> (at every \<open>x\<close>), \<^verbatim>\<open>print\<close> (into every
  stream) and \<^verbatim>\<open>derivative\<close> returns, and returns a result, not an error; so do
  \<^verbatim>\<open>evaluate\<close> and \<^verbatim>\<open>print\<close> of the exclusive-ownership variant. The depth of the call
  stack and the failure of an allocation are outside the model.
\<close>

theorem operations_total:
  assumes wf: "repr h p t"
  shows "(\<exists>v. evaluate_s h p x = Some (Inr v))
       \<and> (\<exists>os'. print_s put h p os = Some (Inr os'))
       \<and> (\<exists>h' d. derivative_s h p = Some (Inr (h', d)))
       \<and> (\<exists>v. evaluate_u (tree_u t) x = Inr v)
       \<and> (\<exists>os'. print_u put (tree_u t) os = Inr os')"
proof -
  from derivative_s_repr [OF wf] have "\<exists>h' d. derivative_s h p = Some (Inr (h', d))"
    by blast
  then show ?thesis
    by (simp add: evaluate_s_repr [OF wf] print_s_repr [OF wf] evaluate_u_tree print_u_tree)
qed

theorem operations_total_witness:
  "repr (fst main_s) (snd main_s) (TProduct (TConstant 4) (TSum (TConstant 5) TVariable))
   \<and> (\<exists>v. evaluate_s (fst main_s) (snd main_s) 10 = Some (Inr v))
   \<and> (\<exists>os'. print_s (\<lambda>c. ''#'') (fst main_s) (snd main_s) [] = Some (Inr os'))
   \<and> (\<exists>h' d. derivative_s (fst main_s) (snd main_s) = Some (Inr (h', d)))"
  using repr_main_s operations_total [OF repr_main_s, of 10 "\<lambda>c. ''#''" "[]"] by simp

subsection \<open>C9: differentiating twice\<close>

text \<open>
  C9: two calls of \<^verbatim>\<open>derivative\<close> on the same well-formed tree, the second on the store
  that the first left, both return; the tree still has its shape; the two results have
  the same shape, evaluate to the same number at every \<open>x\<close> and print the same
  characters into every stream.
\<close>

theorem derivative_deterministic:
  assumes wf: "repr h p t"
  shows "\<exists>h1 d1 h2 d2.
      derivative_s h p = Some (Inr (h1, d1))
    \<and> derivative_s h1 p = Some (Inr (h2, d2))
    \<and> repr h2 p t
    \<and> repr h2 d1 (spec_derivative t)
    \<and> repr h2 d2 (spec_derivative t)
    \<and> (\<forall>x. evaluate_s h2 d1 x = evaluate_s h2 d2 x
           \<and> evaluate_s h2 d1 x = Some (Inr (tree_value (spec_derivative t) x)))
    \<and> (\<forall>put os. print_s put h2 d1 os = print_s put h2 d2 os
           \<and> print_s put h2 d1 os = Some (Inr (os @ spec_print put (spec_derivative t))))"
proof -
  from derivative_s_repr [OF wf] obtain hx1 d1 where
    c1: "derivative_s h p = Some (Inr (h @ hx1, d1))"
    and r1: "repr (h @ hx1) d1 (spec_derivative t)" by blast
  have wf1: "repr (h @ hx1) p t" using wf by (rule repr_append)
  from derivative_s_repr [OF wf1] obtain hx2 d2 where
    c2: "derivative_s (h @ hx1) p = Some (Inr ((h @ hx1) @ hx2, d2))"
    and r2: "repr ((h @ hx1) @ hx2) d2 (spec_derivative t)" by blast
  let ?h2 = "(h @ hx1) @ hx2"
  have wf2: "repr ?h2 p t" using wf1 by (rule repr_append)
  have r1': "repr ?h2 d1 (spec_derivative t)" using r1 by (rule repr_append)
  have ev: "\<forall>x. evaluate_s ?h2 d1 x = evaluate_s ?h2 d2 x
           \<and> evaluate_s ?h2 d1 x = Some (Inr (tree_value (spec_derivative t) x))"
    using evaluate_s_repr [OF r1'] evaluate_s_repr [OF r2] by simp
  have pr: "\<forall>put os. print_s put ?h2 d1 os = print_s put ?h2 d2 os
           \<and> print_s put ?h2 d1 os = Some (Inr (os @ spec_print put (spec_derivative t)))"
    using print_s_repr [OF r1'] print_s_repr [OF r2] by simp
  from c1 c2 wf2 r1' r2 ev pr show ?thesis by blast
qed

theorem derivative_deterministic_witness:
  "repr (fst main_s) (snd main_s) (TProduct (TConstant 4) (TSum (TConstant 5) TVariable))
   \<and> (\<exists>h1 d1 h2 d2.
      derivative_s (fst main_s) (snd main_s) = Some (Inr (h1, d1))
    \<and> derivative_s h1 (snd main_s) = Some (Inr (h2, d2))
    \<and> evaluate_s h2 d1 10 = evaluate_s h2 d2 10
    \<and> print_s (\<lambda>c. ''#'') h2 d1 [] = print_s (\<lambda>c. ''#'') h2 d2 [])"
proof -
  from derivative_deterministic [OF repr_main_s]
  have "\<exists>h1 d1 h2 d2.
      derivative_s (fst main_s) (snd main_s) = Some (Inr (h1, d1))
    \<and> derivative_s h1 (snd main_s) = Some (Inr (h2, d2))
    \<and> evaluate_s h2 d1 10 = evaluate_s h2 d2 10
    \<and> print_s (\<lambda>c. ''#'') h2 d1 [] = print_s (\<lambda>c. ''#'') h2 d2 []"
    by blast
  with repr_main_s show ?thesis by blast
qed

subsection \<open>C10: the stream insertion operator\<close>

text \<open>
  C10: in the exclusive-ownership variant \<^verbatim>\<open>os << e\<close> leaves the stream exactly as
  \<^verbatim>\<open>e.print(os)\<close> does, for every expression and every stream, and what it returns is
  that stream, so that a second insertion continues where the first stopped.
\<close>

theorem operator_shl_writes_what_print_writes:
  "operator_shl put os e = print_u put e os
   \<and> operator_shl put os (tree_u t) = Inr (os @ spec_print put t)
   \<and> (case operator_shl put os (tree_u a) of
         Inl err \<Rightarrow> Inl err
       | Inr os' \<Rightarrow> operator_shl put os' (tree_u b))
       = Inr (os @ spec_print put a @ spec_print put b)"
proof -
  have a: "operator_shl put os e = print_u put e os" for os e
    by (simp add: operator_shl_def split: sum.splits)
  then show ?thesis by (simp add: print_u_tree)
qed

end
